theory Spec2Isabelle
  imports Main
begin

section \<open>Data model of \<open>expenses/models.py\<close>\<close>

subsection \<open>Calendar dates\<close>

text \<open>
  A \<open>datetime.date\<close> is a year, a month and a day of the month. Python compares two
  dates field by field, the year first, then the month, then the day.
\<close>

datatype date = Date (year: nat) (month: nat) (day: nat)

instantiation date :: linorder
begin

definition less_date :: "date \<Rightarrow> date \<Rightarrow> bool" where
  "less_date a b \<longleftrightarrow>
     year a < year b \<or>
     (year a = year b \<and> (month a < month b \<or> (month a = month b \<and> day a < day b)))"

definition less_eq_date :: "date \<Rightarrow> date \<Rightarrow> bool" where
  "less_eq_date a b \<longleftrightarrow> a = b \<or> a < b"

instance
proof
  fix x y z :: date
  show "(x < y) = (x \<le> y \<and> \<not> y \<le> x)"
    by (auto simp: less_eq_date_def less_date_def)
  show "x \<le> x"
    by (simp add: less_eq_date_def)
  show "x \<le> y \<Longrightarrow> y \<le> z \<Longrightarrow> x \<le> z"
    by (auto simp: less_eq_date_def less_date_def)
  show "x \<le> y \<Longrightarrow> y \<le> x \<Longrightarrow> x = y"
    by (auto simp: less_eq_date_def less_date_def)
  show "x \<le> y \<or> y \<le> x"
    by (cases x; cases y) (auto simp: less_eq_date_def less_date_def)
qed

end

text \<open>\<open>today.replace(day=1)\<close>: the same year and month, on day 1.\<close>

definition replace_day1 :: "date \<Rightarrow> date" where
  "replace_day1 d = Date (year d) (month d) 1"

subsection \<open>Money\<close>

text \<open>
  Every amount is a \<open>DecimalField(max_digits=12, decimal_places=2)\<close>: a decimal with two
  fractional digits, held here as its number of hundredths (\<open>Decimal("15.00")\<close> is
  \<open>1500\<close>, \<open>Decimal("0.00")\<close> is \<open>0\<close>).
\<close>

type_synonym decimal = int

subsection \<open>Rows\<close>

record Brand =
  b_id :: nat
  b_name :: string
  b_daily_budget :: decimal
  b_monthly_budget :: decimal

record Campaign =
  c_id :: nat
  c_brand_id :: nat
  c_name :: string
  c_daily_budget :: decimal
  c_monthly_budget :: decimal
  c_active :: bool
  c_start_date :: "date option"
  c_end_date :: "date option"

record Schedule =
  s_campaign_id :: nat
  s_start_hour :: nat
  s_end_hour :: nat

record Expense =
  e_campaign_id :: nat
  e_amount :: decimal
  e_date :: date
  e_notes :: "string option"

text \<open>The tables the aggregation helpers query.\<close>

record db =
  campaigns :: "Campaign list"
  expenses :: "Expense list"

section \<open>\<open>Campaign.within_date_window\<close>\<close>

text \<open>
  \<open>timezone.localdate()\<close> is the parameter \<open>today\<close>. A date object is always truthy, so
  \<open>self.start_date and ...\<close> tests that the field is not \<open>None\<close>.
\<close>

definition Campaign_within_date_window :: "Campaign \<Rightarrow> date \<Rightarrow> bool" where
  "Campaign_within_date_window self today =
     (if (case c_start_date self of None \<Rightarrow> False | Some s \<Rightarrow> today < s) then False
      else if (case c_end_date self of None \<Rightarrow> False | Some e \<Rightarrow> today > e) then False
      else True)"

section \<open>Spend aggregation helpers\<close>

text \<open>
  \<open>aggregate(s=Sum("amount"))["s"]\<close>: the sum of the selected amounts, and \<open>None\<close> when
  no row is selected.
\<close>

definition aggregate_Sum :: "decimal list \<Rightarrow> decimal option" where
  "aggregate_Sum xs = (if xs = [] then None else Some (sum_list xs))"

text \<open>
  \<open>total or Decimal("0.00")\<close>: \<open>None\<close> and a zero decimal are falsy, and then the
  right operand is the value.
\<close>

definition or_zero :: "decimal option \<Rightarrow> decimal" where
  "or_zero tot = (case tot of None \<Rightarrow> 0 | Some t \<Rightarrow> if t = 0 then 0 else t)"

text \<open>
  The lookup \<open>campaign__brand=self\<close> joins an expense with the campaign row its foreign
  key names and compares that campaign's brand with \<open>self\<close>.
\<close>

definition campaign__brand :: "db \<Rightarrow> Expense \<Rightarrow> Brand \<Rightarrow> bool" where
  "campaign__brand d e b =
     (case find (\<lambda>c. c_id c = e_campaign_id e) (campaigns d) of
        None \<Rightarrow> False
      | Some c \<Rightarrow> c_brand_id c = b_id b)"

definition Brand_spent_today :: "db \<Rightarrow> Brand \<Rightarrow> date \<Rightarrow> decimal" where
  "Brand_spent_today d self today =
     (let tot = aggregate_Sum (map e_amount
            (filter (\<lambda>e. campaign__brand d e self \<and> e_date e = today) (expenses d)))
      in or_zero tot)"

definition Brand_spent_this_month :: "db \<Rightarrow> Brand \<Rightarrow> date \<Rightarrow> decimal" where
  "Brand_spent_this_month d self today =
     (let month_start = replace_day1 today;
          tot = aggregate_Sum (map e_amount
            (filter (\<lambda>e. campaign__brand d e self \<and> e_date e \<ge> month_start \<and> e_date e \<le> today)
               (expenses d)))
      in or_zero tot)"

text \<open>\<open>self.expenses\<close>: the expenses whose foreign key is this campaign.\<close>

definition Campaign_expenses :: "db \<Rightarrow> Campaign \<Rightarrow> Expense list" where
  "Campaign_expenses d self = filter (\<lambda>e. e_campaign_id e = c_id self) (expenses d)"

definition Campaign_spent_today :: "db \<Rightarrow> Campaign \<Rightarrow> date \<Rightarrow> decimal" where
  "Campaign_spent_today d self today =
     (let tot = aggregate_Sum (map e_amount
            (filter (\<lambda>e. e_date e = today) (Campaign_expenses d self)))
      in or_zero tot)"

definition Campaign_spent_this_month :: "db \<Rightarrow> Campaign \<Rightarrow> date \<Rightarrow> decimal" where
  "Campaign_spent_this_month d self today =
     (let month_start = replace_day1 today;
          tot = aggregate_Sum (map e_amount
            (filter (\<lambda>e. e_date e \<ge> month_start \<and> e_date e \<le> today) (Campaign_expenses d self)))
      in or_zero tot)"

text \<open>
  \<open>self.campaigns\<close> (the foreign key's \<open>related_name\<close>): the campaigns whose brand is
  this brand.
\<close>

definition Brand_campaigns :: "db \<Rightarrow> Brand \<Rightarrow> Campaign list" where
  "Brand_campaigns d self = filter (\<lambda>c. c_brand_id c = b_id self) (campaigns d)"

section \<open>The \<open>Expense.amount\<close> field\<close>

text \<open>
  \<open>models.DecimalField(max_digits=12, decimal_places=2)\<close> declares no validator of its
  own; the field admits a decimal of two fractional digits with at most ten digits before
  the point, of either sign. In hundredths that is a magnitude below \<open>10 ^ 12\<close>.
\<close>

definition amount_field_accepts :: "decimal \<Rightarrow> bool" where
  "amount_field_accepts a \<longleftrightarrow> \<bar>a\<bar> < 10 ^ 12"

definition Expense_accepted :: "Expense \<Rightarrow> bool" where
  "Expense_accepted e \<longleftrightarrow> amount_field_accepts (e_amount e)"

section \<open>The evaluation engine of the specification\<close>

text \<open>
  \<open>models.py\<close> declares the \<open>active\<close> flag and the \<open>Schedule\<close> hours, and no function of
  the source reads them. The engine that does is described by the specification only.
\<close>

text \<open>
  Modelled from the spec: the evaluation instant, absent from the source, of which the
  engine reads the calendar date and the hour of the day.
\<close>

record instant =
  i_date :: date
  i_hour :: nat

text \<open>
  Modelled from the spec: the hour check of the Window Evaluator, absent from the source.
  With no schedule the campaign is unrestricted by hour; with one, hour \<open>h\<close> passes iff
  \<open>start_hour <= h < end_hour\<close>.
\<close>

definition hour_check :: "Schedule option \<Rightarrow> nat \<Rightarrow> bool" where
  "hour_check schedule_or_none h =
     (case schedule_or_none of
        None \<Rightarrow> True
      | Some s \<Rightarrow> s_start_hour s \<le> h \<and> h < s_end_hour s)"

text \<open>
  Modelled from the spec: \<open>is_within_window(campaign, schedule_or_none, instant)\<close>, absent
  from the source. The inactive flag is evaluated first, then the date check (the
  source's \<open>within_date_window\<close> at the instant's date), then the hour check.
\<close>

definition is_within_window :: "Campaign \<Rightarrow> Schedule option \<Rightarrow> instant \<Rightarrow> bool" where
  "is_within_window campaign schedule_or_none inst =
     (if \<not> c_active campaign then False
      else if \<not> Campaign_within_date_window campaign (i_date inst) then False
      else hour_check schedule_or_none (i_hour inst))"

text \<open>
  Modelled from the spec: the Budget Ledger, absent from the source. A zero cap is the
  sentinel \<open>Unbounded\<close>; otherwise the ledger exposes \<open>raw_remaining\<close> (cap minus spent)
  and \<open>capped_remaining\<close> (the raw value floored at zero).
\<close>

datatype headroom = Unbounded | Headroom decimal decimal

definition raw_remaining :: "decimal \<Rightarrow> decimal \<Rightarrow> decimal" where
  "raw_remaining cap spent = cap - spent"

definition capped_remaining :: "decimal \<Rightarrow> decimal \<Rightarrow> decimal" where
  "capped_remaining cap spent =
     (if raw_remaining cap spent < 0 then 0 else raw_remaining cap spent)"

definition remaining :: "decimal \<Rightarrow> decimal \<Rightarrow> headroom" where
  "remaining cap spent =
     (if cap = 0 then Unbounded
      else Headroom (raw_remaining cap spent) (capped_remaining cap spent))"

text \<open>
  Modelled from the spec: the snapshot the engine consumes, the budgets and flags of the
  source's rows together with the four aggregated spends.
\<close>

record snapshot =
  sn_brand :: Brand
  sn_campaign :: Campaign
  sn_schedule :: "Schedule option"
  sn_brand_spent_today :: decimal
  sn_brand_spent_this_month :: decimal
  sn_campaign_spent_today :: decimal
  sn_campaign_spent_this_month :: decimal

text \<open>
  Modelled from the spec: the read interface that supplies a snapshot, absent from the
  source. The four spends are those of the source's helpers at the evaluation date.
\<close>

definition take_snapshot :: "db \<Rightarrow> Brand \<Rightarrow> Campaign \<Rightarrow> Schedule option \<Rightarrow> date \<Rightarrow> snapshot" where
  "take_snapshot d b c s today =
     \<lparr> sn_brand = b, sn_campaign = c, sn_schedule = s,
       sn_brand_spent_today = Brand_spent_today d b today,
       sn_brand_spent_this_month = Brand_spent_this_month d b today,
       sn_campaign_spent_today = Campaign_spent_today d c today,
       sn_campaign_spent_this_month = Campaign_spent_this_month d c today \<rparr>"

text \<open>Modelled from the spec: the decision codes of \<open>authorize\<close>, absent from the source.\<close>

datatype Decision =
    ALLOWED
  | DENIED_INACTIVE
  | DENIED_OUT_OF_WINDOW
  | DENIED_BRAND_DAILY_CAP
  | DENIED_BRAND_MONTHLY_CAP
  | DENIED_CAMPAIGN_DAILY_CAP
  | DENIED_CAMPAIGN_MONTHLY_CAP

text \<open>
  Modelled from the spec: a cap check fails when the cap is set (non-zero) and the spend
  of the period plus the proposed amount is above the cap.
\<close>

definition cap_exceeded :: "decimal \<Rightarrow> decimal \<Rightarrow> decimal \<Rightarrow> bool" where
  "cap_exceeded cap spent proposed_amount \<longleftrightarrow> cap \<noteq> 0 \<and> spent + proposed_amount > cap"

text \<open>
  Modelled from the spec: \<open>authorize\<close>, absent from the source, in the evaluation order
  of the specification's steps 1 to 7.
\<close>

definition authorize :: "snapshot \<Rightarrow> decimal \<Rightarrow> instant \<Rightarrow> Decision" where
  "authorize sn proposed_amount inst =
     (if \<not> c_active (sn_campaign sn) then DENIED_INACTIVE
      else if \<not> is_within_window (sn_campaign sn) (sn_schedule sn) inst
        then DENIED_OUT_OF_WINDOW
      else if cap_exceeded (b_daily_budget (sn_brand sn)) (sn_brand_spent_today sn) proposed_amount
        then DENIED_BRAND_DAILY_CAP
      else if cap_exceeded (b_monthly_budget (sn_brand sn)) (sn_brand_spent_this_month sn)
                proposed_amount
        then DENIED_BRAND_MONTHLY_CAP
      else if cap_exceeded (c_daily_budget (sn_campaign sn)) (sn_campaign_spent_today sn)
                proposed_amount
        then DENIED_CAMPAIGN_DAILY_CAP
      else if cap_exceeded (c_monthly_budget (sn_campaign sn)) (sn_campaign_spent_this_month sn)
                proposed_amount
        then DENIED_CAMPAIGN_MONTHLY_CAP
      else ALLOWED)"

section \<open>Concrete rows used in the examples\<close>

definition jan10 :: date where "jan10 = Date 2024 1 10"
definition jan20 :: date where "jan20 = Date 2024 1 20"

definition brand1 :: Brand where
  "brand1 = \<lparr> b_id = 1, b_name = ''acme'', b_daily_budget = 100000, b_monthly_budget = 0 \<rparr>"

definition camp1 :: Campaign where
  "camp1 = \<lparr> c_id = 1, c_brand_id = 1, c_name = ''spring'', c_daily_budget = 2000,
             c_monthly_budget = 0, c_active = True,
             c_start_date = Some jan10, c_end_date = Some jan20 \<rparr>"

definition camp2 :: Campaign where
  "camp2 = \<lparr> c_id = 2, c_brand_id = 1, c_name = ''summer'', c_daily_budget = 0,
             c_monthly_budget = 0, c_active = False,
             c_start_date = None, c_end_date = None \<rparr>"

definition sched1 :: Schedule where
  "sched1 = \<lparr> s_campaign_id = 1, s_start_hour = 9, s_end_hour = 17 \<rparr>"

definition db1 :: db where
  "db1 = \<lparr> campaigns = [camp1, camp2],
           expenses =
             [\<lparr> e_campaign_id = 1, e_amount = 1500, e_date = Date 2024 1 15, e_notes = None \<rparr>,
              \<lparr> e_campaign_id = 2, e_amount = 700, e_date = Date 2024 1 15, e_notes = None \<rparr>,
              \<lparr> e_campaign_id = 1, e_amount = 300, e_date = Date 2024 1 3, e_notes = None \<rparr>,
              \<lparr> e_campaign_id = 1, e_amount = 4000, e_date = Date 2023 12 31, e_notes = None \<rparr>,
              \<lparr> e_campaign_id = 2, e_amount = 90, e_date = Date 2024 1 16, e_notes = None \<rparr>] \<rparr>"

definition refund1 :: Expense where
  "refund1 = \<lparr> e_campaign_id = 1, e_amount = - 500, e_date = Date 2024 1 15, e_notes = None \<rparr>"

definition noon15 :: instant where
  "noon15 = \<lparr> i_date = Date 2024 1 15, i_hour = 12 \<rparr>"

definition sn1 :: snapshot where
  "sn1 = take_snapshot db1 brand1 camp1 (Some sched1) (Date 2024 1 15)"

definition sn2 :: snapshot where
  "sn2 = take_snapshot db1 brand1 camp2 None (Date 2024 1 15)"

definition sn3 :: snapshot where
  "sn3 = \<lparr> sn_brand = brand1\<lparr>b_daily_budget := 0\<rparr>,
           sn_campaign = camp1\<lparr>c_daily_budget := 0\<rparr>,
           sn_schedule = Some sched1,
           sn_brand_spent_today = 123456789, sn_brand_spent_this_month = 987654321,
           sn_campaign_spent_today = 123456789, sn_campaign_spent_this_month = 987654321 \<rparr>"

text \<open>A second database, with a campaign of another brand and its expenses.\<close>

definition camp3 :: Campaign where
  "camp3 = \<lparr> c_id = 3, c_brand_id = 2, c_name = ''rival'', c_daily_budget = 0,
             c_monthly_budget = 0, c_active = True,
             c_start_date = None, c_end_date = None \<rparr>"

definition db2 :: db where
  "db2 = \<lparr> campaigns = [camp1, camp2, camp3],
           expenses =
             [\<lparr> e_campaign_id = 1, e_amount = 1500, e_date = Date 2024 1 15, e_notes = None \<rparr>,
              \<lparr> e_campaign_id = 3, e_amount = 5000, e_date = Date 2024 1 15, e_notes = None \<rparr>,
              \<lparr> e_campaign_id = 2, e_amount = 700, e_date = Date 2024 1 15, e_notes = None \<rparr>,
              \<lparr> e_campaign_id = 1, e_amount = 300, e_date = Date 2024 1 3, e_notes = None \<rparr>,
              \<lparr> e_campaign_id = 3, e_amount = 60, e_date = Date 2024 1 4, e_notes = None \<rparr>,
              \<lparr> e_campaign_id = 1, e_amount = 4000, e_date = Date 2023 12 31, e_notes = None \<rparr>] \<rparr>"

section \<open>The month period, in calendar terms\<close>

text \<open>
  A date lies in the month-to-date period of \<open>today\<close> when it has today's year and
  month and its day is between 1 and today's day.
\<close>

definition in_month_to_date :: "date \<Rightarrow> date \<Rightarrow> bool" where
  "in_month_to_date today x \<longleftrightarrow>
     year x = year today \<and> month x = month today \<and> 1 \<le> day x \<and> day x \<le> day today"

section \<open>Auxiliary facts\<close>

lemma or_zero_aggregate_Sum: "or_zero (aggregate_Sum xs) = sum_list xs"
  by (simp add: or_zero_def aggregate_Sum_def)

lemma month_window_iff:
  "replace_day1 today \<le> x \<and> x \<le> today \<longleftrightarrow> in_month_to_date today x"
  by (cases x; cases today)
    (auto simp: replace_day1_def in_month_to_date_def less_eq_date_def less_date_def)

lemma filter_filter_conj: "filter P (filter Q xs) = filter (\<lambda>x. Q x \<and> P x) xs"
  by (induction xs) auto

lemma sum_filter_none:
  "\<forall>e\<in>set xs. \<not> Q e \<Longrightarrow> sum_list (map (f :: 'a \<Rightarrow> int) (filter Q xs)) = 0"
  by (simp add: filter_empty_conv [THEN iffD2])

lemma Brand_spent_today_sum:
  "Brand_spent_today d b today =
     sum_list (map e_amount
       (filter (\<lambda>e. campaign__brand d e b \<and> e_date e = today) (expenses d)))"
  by (simp add: Brand_spent_today_def or_zero_aggregate_Sum)

lemma Brand_spent_this_month_sum:
  "Brand_spent_this_month d b today =
     sum_list (map e_amount
       (filter (\<lambda>e. campaign__brand d e b \<and> in_month_to_date today (e_date e)) (expenses d)))"
  by (simp add: Brand_spent_this_month_def or_zero_aggregate_Sum month_window_iff)

lemma Campaign_spent_today_sum:
  "Campaign_spent_today d c today =
     sum_list (map e_amount
       (filter (\<lambda>e. e_campaign_id e = c_id c \<and> e_date e = today) (expenses d)))"
  by (simp add: Campaign_spent_today_def Campaign_expenses_def or_zero_aggregate_Sum
      filter_filter_conj)

lemma Campaign_spent_this_month_sum:
  "Campaign_spent_this_month d c today =
     sum_list (map e_amount
       (filter (\<lambda>e. e_campaign_id e = c_id c \<and> in_month_to_date today (e_date e)) (expenses d)))"
  by (simp add: Campaign_spent_this_month_def Campaign_expenses_def or_zero_aggregate_Sum
      filter_filter_conj month_window_iff)

text \<open>
  A campaign key that no row of the table carries contributes nothing; a key that one row
  carries contributes once, because the primary keys are distinct.
\<close>

lemma sum_campaigns_absent:
  fixes cs :: "Campaign list"
  shows "\<forall>x\<in>set cs. c_id x \<noteq> k \<Longrightarrow>
    (\<Sum>c\<leftarrow>filter (\<lambda>c. c_brand_id c = b) cs. if k = c_id c \<and> P then (a::int) else 0) = 0"
  by (induction cs) auto

lemma sum_campaigns_one:
  fixes cs :: "Campaign list"
  shows "distinct (map c_id cs) \<Longrightarrow>
   (\<Sum>c\<leftarrow>filter (\<lambda>c. c_brand_id c = b) cs. if k = c_id c \<and> P then (a::int) else 0) =
   (if (case find (\<lambda>c. c_id c = k) cs of None \<Rightarrow> False | Some c \<Rightarrow> c_brand_id c = b) \<and> P
    then a else 0)"
proof (induction cs)
  case Nil
  then show ?case by simp
next
  case (Cons c cs)
  show ?case
  proof (cases "c_id c = k")
    case True
    from Cons.prems True have "\<forall>x\<in>set cs. c_id x \<noteq> k" by (auto simp: image_iff)
    then have "(\<Sum>c\<leftarrow>filter (\<lambda>c. c_brand_id c = b) cs. if k = c_id c \<and> P then a else 0) = 0"
      by (rule sum_campaigns_absent)
    with True show ?thesis by auto
  next
    case False
    with Cons show ?thesis by auto
  qed
qed

lemma brand_sum_is_campaign_sums:
  assumes "distinct (map c_id (campaigns d))"
  shows "sum_list (map e_amount (filter (\<lambda>e. campaign__brand d e b \<and> P (e_date e)) es)) =
    (\<Sum>c\<leftarrow>filter (\<lambda>c. c_brand_id c = b_id b) (campaigns d).
       sum_list (map e_amount
         (filter (\<lambda>e. P (e_date e)) (filter (\<lambda>e. e_campaign_id e = c_id c) es))))"
proof (induction es)
  case Nil
  then show ?case by simp
next
  case (Cons e es)
  let ?cs = "filter (\<lambda>c. c_brand_id c = b_id b) (campaigns d)"
  let ?S = "\<lambda>es c. sum_list (map e_amount
      (filter (\<lambda>e. P (e_date e)) (filter (\<lambda>e. e_campaign_id e = c_id c) es)))"
  have step: "?S (e # es) c =
      (if e_campaign_id e = c_id c \<and> P (e_date e) then e_amount e else 0) + ?S es c"
    for c :: Campaign
    by simp
  have "(\<Sum>c\<leftarrow>?cs. ?S (e # es) c) =
      (\<Sum>c\<leftarrow>?cs. if e_campaign_id e = c_id c \<and> P (e_date e) then e_amount e else 0) +
      (\<Sum>c\<leftarrow>?cs. ?S es c)"
    unfolding step by (simp add: sum_list_addf)
  also have "(\<Sum>c\<leftarrow>?cs. if e_campaign_id e = c_id c \<and> P (e_date e) then e_amount e else 0) =
      (if campaign__brand d e b \<and> P (e_date e) then e_amount e else 0)"
    unfolding campaign__brand_def by (rule sum_campaigns_one [OF assms])
  finally show ?case using Cons.IH by simp
qed

text \<open>
  With distinct primary keys, the join selects an expense exactly when its foreign key is
  the key of one of the brand's campaigns.
\<close>

lemma find_distinct_key:
  fixes cs :: "Campaign list"
  shows "distinct (map c_id cs) \<Longrightarrow>
    (case find (\<lambda>c. c_id c = k) cs of None \<Rightarrow> False | Some c \<Rightarrow> c_brand_id c = b) \<longleftrightarrow>
    k \<in> c_id ` set (filter (\<lambda>c. c_brand_id c = b) cs)"
proof (induction cs)
  case Nil
  then show ?case by simp
next
  case (Cons c cs)
  show ?case
  proof (cases "c_id c = k")
    case True
    from Cons.prems True have "\<forall>x\<in>set cs. c_id x \<noteq> k" by (auto simp: image_iff)
    with True show ?thesis by (auto simp: image_iff)
  next
    case False
    with Cons show ?thesis by (auto simp: image_iff)
  qed
qed

lemma campaign__brand_iff:
  "distinct (map c_id (campaigns d)) \<Longrightarrow>
   campaign__brand d e b \<longleftrightarrow> e_campaign_id e \<in> c_id ` set (Brand_campaigns d b)"
  unfolding campaign__brand_def Brand_campaigns_def by (rule find_distinct_key)

text \<open>The source's date check never reads the \<open>active\<close> flag.\<close>

lemma within_date_window_ignores_active:
  "Campaign_within_date_window (c\<lparr>c_active := a\<rparr>) today = Campaign_within_date_window c today"
  by (simp add: Campaign_within_date_window_def)

section \<open>The date window\<close>

text \<open>
  C1. For every campaign and every date \<open>today\<close>, \<open>within_date_window\<close> is true exactly
  when \<open>today\<close> is on or after a set \<open>start_date\<close> and on or before a set \<open>end_date\<close> (an
  absent bound does not restrict), and it is false exactly when a set \<open>start_date\<close> is
  after \<open>today\<close> or a set \<open>end_date\<close> is before it. Both bounds are inclusive.
\<close>

theorem within_date_window_inclusive:
  "(Campaign_within_date_window c today \<longleftrightarrow>
      (case c_start_date c of None \<Rightarrow> True | Some s \<Rightarrow> s \<le> today) \<and>
      (case c_end_date c of None \<Rightarrow> True | Some e \<Rightarrow> today \<le> e)) \<and>
   (\<not> Campaign_within_date_window c today \<longleftrightarrow>
      (\<exists>s. c_start_date c = Some s \<and> today < s) \<or>
      (\<exists>e. c_end_date c = Some e \<and> e < today))"
  by (auto simp: Campaign_within_date_window_def split: option.splits)

theorem within_date_window_inclusive_witness:
  "Campaign_within_date_window camp1 jan10 \<and>
   Campaign_within_date_window camp1 jan20 \<and>
   \<not> Campaign_within_date_window camp1 (Date 2024 1 9) \<and>
   \<not> Campaign_within_date_window camp1 (Date 2024 1 21) \<and>
   Campaign_within_date_window camp2 (Date 1999 12 31)"
  using within_date_window_inclusive [of camp1 jan10]
    within_date_window_inclusive [of camp1 jan20]
    within_date_window_inclusive [of camp1 "Date 2024 1 9"]
    within_date_window_inclusive [of camp1 "Date 2024 1 21"]
    within_date_window_inclusive [of camp2 "Date 1999 12 31"]
  by (simp add: camp1_def camp2_def jan10_def jan20_def less_eq_date_def less_date_def)

section \<open>Inactive campaigns\<close>

text \<open>
  C2. For every campaign with \<open>active = false\<close> the window evaluation fails and the
  authorization decision is \<open>DENIED_INACTIVE\<close>, whatever the evaluation date, the
  start and end dates, the schedule, the hour and the proposed amount.
\<close>

theorem inactive_hard_override:
  "\<not> c_active (sn_campaign sn) \<Longrightarrow>
     \<not> is_within_window (sn_campaign sn) schedule_or_none inst \<and>
     authorize sn proposed_amount inst = DENIED_INACTIVE"
  by (simp add: is_within_window_def authorize_def)

theorem inactive_hard_override_witness:
  "\<not> c_active (sn_campaign sn2) \<and>
   \<not> is_within_window (sn_campaign sn2) None noon15 \<and>
   authorize sn2 5000 noon15 = DENIED_INACTIVE"
proof -
  have h: "\<not> c_active (sn_campaign sn2)"
    by (simp add: sn2_def take_snapshot_def camp2_def)
  from inactive_hard_override [OF h, of None noon15 5000] h show ?thesis by simp
qed

section \<open>The hour check\<close>

text \<open>
  C3. For every hour \<open>h\<close> in 0..23: with no schedule the hour check passes; with a
  schedule it passes iff \<open>start_hour \<le> h < end_hour\<close>. With \<open>start_hour = 9\<close> and
  \<open>end_hour = 17\<close>, hours 8 and 17 fail and hours 9 and 16 pass. With \<open>end_hour = 24\<close>
  the check passes exactly for the hours from \<open>start_hour\<close> on, with no wraparound.
\<close>

theorem hour_check_half_open:
  "h < 24 \<Longrightarrow>
     hour_check None h \<and>
     (hour_check (Some s) h \<longleftrightarrow> s_start_hour s \<le> h \<and> h < s_end_hour s) \<and>
     (s_start_hour s = 9 \<and> s_end_hour s = 17 \<longrightarrow>
        \<not> hour_check (Some s) 8 \<and> hour_check (Some s) 9 \<and>
        hour_check (Some s) 16 \<and> \<not> hour_check (Some s) 17) \<and>
     (s_end_hour s = 24 \<longrightarrow> (hour_check (Some s) h \<longleftrightarrow> s_start_hour s \<le> h))"
  by (simp add: hour_check_def)

theorem hour_check_half_open_witness:
  "(16::nat) < 24 \<and> hour_check None 16 \<and>
   s_start_hour sched1 = 9 \<and> s_end_hour sched1 = 17 \<and>
   \<not> hour_check (Some sched1) 8 \<and> hour_check (Some sched1) 9 \<and>
   hour_check (Some sched1) 16 \<and> \<not> hour_check (Some sched1) 17 \<and>
   s_end_hour (sched1\<lparr>s_start_hour := 6, s_end_hour := 24\<rparr>) = 24 \<and>
   hour_check (Some (sched1\<lparr>s_start_hour := 6, s_end_hour := 24\<rparr>)) 23 \<and>
   \<not> hour_check (Some (sched1\<lparr>s_start_hour := 6, s_end_hour := 24\<rparr>)) 0"
proof -
  have h: "(16::nat) < 24" and k: "(23::nat) < 24" and z: "(0::nat) < 24"
    by simp_all
  from hour_check_half_open [OF h, of sched1]
    hour_check_half_open [OF k, of "sched1\<lparr>s_start_hour := 6, s_end_hour := 24\<rparr>"]
    hour_check_half_open [OF z, of "sched1\<lparr>s_start_hour := 6, s_end_hour := 24\<rparr>"]
  show ?thesis by (simp add: sched1_def)
qed

section \<open>Aggregation\<close>

text \<open>
  C4. When no expense row of the scope lies in the aggregated period, each of the four
  helpers (\<open>spent_today\<close> and \<open>spent_this_month\<close>, of a brand and of a campaign) returns
  the decimal zero.
\<close>

theorem spent_zero_without_rows:
  "((\<forall>e\<in>set (expenses d). campaign__brand d e b \<longrightarrow> e_date e \<noteq> today)
      \<longrightarrow> Brand_spent_today d b today = 0) \<and>
   ((\<forall>e\<in>set (expenses d). campaign__brand d e b \<longrightarrow> \<not> in_month_to_date today (e_date e))
      \<longrightarrow> Brand_spent_this_month d b today = 0) \<and>
   ((\<forall>e\<in>set (expenses d). e_campaign_id e = c_id c \<longrightarrow> e_date e \<noteq> today)
      \<longrightarrow> Campaign_spent_today d c today = 0) \<and>
   ((\<forall>e\<in>set (expenses d). e_campaign_id e = c_id c \<longrightarrow> \<not> in_month_to_date today (e_date e))
      \<longrightarrow> Campaign_spent_this_month d c today = 0)"
  by (simp add: Brand_spent_this_month_sum Campaign_spent_this_month_sum Brand_spent_today_sum
      Campaign_spent_today_sum sum_filter_none)

theorem spent_zero_without_rows_witness:
  "filter (\<lambda>e. e_date e = Date 2024 2 1) (expenses db1) = [] \<and>
   filter (\<lambda>e. in_month_to_date (Date 2024 2 1) (e_date e)) (expenses db1) = [] \<and>
   aggregate_Sum (map e_amount (filter (\<lambda>e. e_date e = Date 2024 2 1) (expenses db1))) = None \<and>
   Brand_spent_today db1 brand1 (Date 2024 2 1) = 0 \<and>
   Brand_spent_this_month db1 brand1 (Date 2024 2 1) = 0 \<and>
   Campaign_spent_today db1 camp1 (Date 2024 2 1) = 0 \<and>
   Campaign_spent_this_month db1 camp1 (Date 2024 2 1) = 0"
proof -
  have h: "\<forall>e\<in>set (expenses db1). e_date e \<noteq> Date 2024 2 1 \<and>
      \<not> in_month_to_date (Date 2024 2 1) (e_date e)"
    by (simp add: db1_def in_month_to_date_def)
  then have f: "filter (\<lambda>e. e_date e = Date 2024 2 1) (expenses db1) = []"
    and g: "filter (\<lambda>e. in_month_to_date (Date 2024 2 1) (e_date e)) (expenses db1) = []"
    by (simp_all add: filter_empty_conv)
  from h f g spent_zero_without_rows [of db1 brand1 "Date 2024 2 1" camp1]
  show ?thesis by (simp add: aggregate_Sum_def)
qed

text \<open>
  C5. \<open>spent_this_month\<close> (of a brand and of a campaign) sums exactly the expenses of
  the scope dated in the evaluation date's year and month on a day from 1 to the
  evaluation date's day, and \<open>spent_today\<close> sums exactly those dated on the evaluation
  date.
\<close>

theorem spent_periods:
  "Brand_spent_this_month d b today =
     sum_list (map e_amount
       (filter (\<lambda>e. campaign__brand d e b \<and> in_month_to_date today (e_date e)) (expenses d))) \<and>
   Campaign_spent_this_month d c today =
     sum_list (map e_amount
       (filter (\<lambda>e. e_campaign_id e = c_id c \<and> in_month_to_date today (e_date e)) (expenses d))) \<and>
   Brand_spent_today d b today =
     sum_list (map e_amount
       (filter (\<lambda>e. campaign__brand d e b \<and> e_date e = today) (expenses d))) \<and>
   Campaign_spent_today d c today =
     sum_list (map e_amount
       (filter (\<lambda>e. e_campaign_id e = c_id c \<and> e_date e = today) (expenses d)))"
  using Brand_spent_this_month_sum Campaign_spent_this_month_sum Brand_spent_today_sum
    Campaign_spent_today_sum
  by blast

theorem spent_periods_witness:
  "Brand_spent_this_month db1 brand1 (Date 2024 1 16) = 2590 \<and>
   Campaign_spent_this_month db1 camp1 (Date 2024 1 16) = 1800 \<and>
   Campaign_spent_this_month db1 camp1 (Date 2024 1 2) = 0 \<and>
   Brand_spent_today db1 brand1 (Date 2024 1 15) = 2200 \<and>
   Campaign_spent_today db1 camp1 (Date 2024 1 15) = 1500"
proof -
  have c: "campaign__brand db1 e brand1 \<longleftrightarrow> e_campaign_id e = 1 \<or> e_campaign_id e = 2" for e
    by (simp add: campaign__brand_def db1_def camp1_def camp2_def brand1_def)
  have x: "expenses db1 =
     [\<lparr> e_campaign_id = 1, e_amount = 1500, e_date = Date 2024 1 15, e_notes = None \<rparr>,
      \<lparr> e_campaign_id = 2, e_amount = 700, e_date = Date 2024 1 15, e_notes = None \<rparr>,
      \<lparr> e_campaign_id = 1, e_amount = 300, e_date = Date 2024 1 3, e_notes = None \<rparr>,
      \<lparr> e_campaign_id = 1, e_amount = 4000, e_date = Date 2023 12 31, e_notes = None \<rparr>,
      \<lparr> e_campaign_id = 2, e_amount = 90, e_date = Date 2024 1 16, e_notes = None \<rparr>]"
    by (simp add: db1_def)
  have i: "c_id camp1 = 1"
    by (simp add: camp1_def)
  show ?thesis
    using spent_periods [of db1 brand1 "Date 2024 1 16" camp1]
      spent_periods [of db1 brand1 "Date 2024 1 15" camp1]
      spent_periods [of db1 brand1 "Date 2024 1 2" camp1]
    by (simp add: c x i in_month_to_date_def)
qed

text \<open>
  C6. When the campaign rows have distinct primary keys: the spend of a brand today (and
  this month) is the sum of the amounts of the expenses of the period whose campaign is
  one of the brand's campaigns; the spend of a campaign today (and this month) is the sum
  of the amounts of the expenses of the period of that single campaign; and the brand's
  spend is the sum, over the campaigns of the brand, of the campaign's spend.
\<close>

theorem brand_spend_sums_campaigns:
  assumes "distinct (map c_id (campaigns d))"
  shows "Brand_spent_today d b today =
      sum_list (map e_amount
        (filter (\<lambda>e. e_campaign_id e \<in> c_id ` set (Brand_campaigns d b) \<and> e_date e = today)
           (expenses d))) \<and>
    Campaign_spent_today d c today =
      sum_list (map e_amount
        (filter (\<lambda>e. e_campaign_id e = c_id c \<and> e_date e = today) (expenses d))) \<and>
    Brand_spent_today d b today =
      (\<Sum>c\<leftarrow>Brand_campaigns d b. Campaign_spent_today d c today) \<and>
    Brand_spent_this_month d b today =
      sum_list (map e_amount
        (filter (\<lambda>e. e_campaign_id e \<in> c_id ` set (Brand_campaigns d b) \<and>
                   in_month_to_date today (e_date e))
           (expenses d))) \<and>
    Campaign_spent_this_month d c today =
      sum_list (map e_amount
        (filter (\<lambda>e. e_campaign_id e = c_id c \<and> in_month_to_date today (e_date e))
           (expenses d))) \<and>
    Brand_spent_this_month d b today =
      (\<Sum>c\<leftarrow>Brand_campaigns d b. Campaign_spent_this_month d c today)"
proof -
  have bt: "Brand_spent_today d b today =
      (\<Sum>c\<leftarrow>Brand_campaigns d b. Campaign_spent_today d c today)"
    using brand_sum_is_campaign_sums [OF assms, of b "\<lambda>x. x = today" "expenses d"]
    by (simp add: Brand_spent_today_def Campaign_spent_today_def Campaign_expenses_def
        or_zero_aggregate_Sum Brand_campaigns_def)
  have bm: "Brand_spent_this_month d b today =
      (\<Sum>c\<leftarrow>Brand_campaigns d b. Campaign_spent_this_month d c today)"
    using brand_sum_is_campaign_sums
      [OF assms, of b "\<lambda>x. replace_day1 today \<le> x \<and> x \<le> today" "expenses d"]
    by (simp add: Brand_spent_this_month_def Campaign_spent_this_month_def Campaign_expenses_def
        or_zero_aggregate_Sum Brand_campaigns_def)
  have st: "Brand_spent_today d b today =
      sum_list (map e_amount
        (filter (\<lambda>e. e_campaign_id e \<in> c_id ` set (Brand_campaigns d b) \<and> e_date e = today)
           (expenses d)))"
    by (simp add: Brand_spent_today_sum campaign__brand_iff [OF assms])
  have sm: "Brand_spent_this_month d b today =
      sum_list (map e_amount
        (filter (\<lambda>e. e_campaign_id e \<in> c_id ` set (Brand_campaigns d b) \<and>
                   in_month_to_date today (e_date e))
           (expenses d)))"
    by (simp add: Brand_spent_this_month_sum campaign__brand_iff [OF assms])
  from bt bm st sm Campaign_spent_today_sum [of d c today]
    Campaign_spent_this_month_sum [of d c today]
  show ?thesis by blast
qed

theorem brand_spend_sums_campaigns_witness:
  "distinct (map c_id (campaigns db2)) \<and>
   Brand_campaigns db2 brand1 = [camp1, camp2] \<and>
   Campaign_spent_today db2 camp1 (Date 2024 1 15) = 1500 \<and>
   Campaign_spent_today db2 camp2 (Date 2024 1 15) = 700 \<and>
   Campaign_spent_today db2 camp3 (Date 2024 1 15) = 5000 \<and>
   Brand_spent_today db2 brand1 (Date 2024 1 15) = 2200 \<and>
   Brand_spent_today db2 brand1 (Date 2024 1 15) =
     Campaign_spent_today db2 camp1 (Date 2024 1 15) +
     Campaign_spent_today db2 camp2 (Date 2024 1 15) \<and>
   Campaign_spent_this_month db2 camp1 (Date 2024 1 15) = 1800 \<and>
   Campaign_spent_this_month db2 camp2 (Date 2024 1 15) = 700 \<and>
   Campaign_spent_this_month db2 camp3 (Date 2024 1 15) = 5060 \<and>
   Brand_spent_this_month db2 brand1 (Date 2024 1 15) = 2500 \<and>
   Brand_spent_this_month db2 brand1 (Date 2024 1 15) =
     Campaign_spent_this_month db2 camp1 (Date 2024 1 15) +
     Campaign_spent_this_month db2 camp2 (Date 2024 1 15)"
proof -
  have d: "distinct (map c_id (campaigns db2))"
    by (simp add: db2_def camp1_def camp2_def camp3_def)
  have f: "Brand_campaigns db2 brand1 = [camp1, camp2]"
    by (simp add: Brand_campaigns_def db2_def camp1_def camp2_def camp3_def brand1_def)
  have i: "c_id camp1 = 1" "c_id camp2 = 2" "c_id camp3 = 3"
    by (simp_all add: camp1_def camp2_def camp3_def)
  have x: "expenses db2 =
     [\<lparr> e_campaign_id = 1, e_amount = 1500, e_date = Date 2024 1 15, e_notes = None \<rparr>,
      \<lparr> e_campaign_id = 3, e_amount = 5000, e_date = Date 2024 1 15, e_notes = None \<rparr>,
      \<lparr> e_campaign_id = 2, e_amount = 700, e_date = Date 2024 1 15, e_notes = None \<rparr>,
      \<lparr> e_campaign_id = 1, e_amount = 300, e_date = Date 2024 1 3, e_notes = None \<rparr>,
      \<lparr> e_campaign_id = 3, e_amount = 60, e_date = Date 2024 1 4, e_notes = None \<rparr>,
      \<lparr> e_campaign_id = 1, e_amount = 4000, e_date = Date 2023 12 31, e_notes = None \<rparr>]"
    by (simp add: db2_def)
  from brand_spend_sums_campaigns [OF d, of brand1 "Date 2024 1 15" camp1]
    brand_spend_sums_campaigns [OF d, of brand1 "Date 2024 1 15" camp2]
    brand_spend_sums_campaigns [OF d, of brand1 "Date 2024 1 15" camp3]
  show ?thesis
    by (simp add: d f i x in_month_to_date_def)
qed

section \<open>Authorization\<close>

text \<open>
  C7. \<open>authorize\<close> returns the denial code of the first failing check in the order
  inactive, window, brand-day, brand-month, campaign-day, campaign-month, and \<open>ALLOWED\<close>
  exactly when all six pass. A cap check fails iff the cap is non-zero and the spend of
  the period plus the proposed amount is strictly above the cap. In scenario C (an
  active campaign inside its window, brand daily cap 1000.00 with the brand checks
  passing, campaign daily cap 20.00, campaign spend today 15.00, proposed 10.00) the
  result is \<open>DENIED_CAMPAIGN_DAILY_CAP\<close>.
\<close>

theorem authorize_first_failing_check:
  "(authorize sn p inst = DENIED_INACTIVE \<longleftrightarrow> \<not> c_active (sn_campaign sn)) \<and>
   (authorize sn p inst = DENIED_OUT_OF_WINDOW \<longleftrightarrow>
      c_active (sn_campaign sn) \<and>
      \<not> is_within_window (sn_campaign sn) (sn_schedule sn) inst) \<and>
   (authorize sn p inst = DENIED_BRAND_DAILY_CAP \<longleftrightarrow>
      c_active (sn_campaign sn) \<and>
      is_within_window (sn_campaign sn) (sn_schedule sn) inst \<and>
      cap_exceeded (b_daily_budget (sn_brand sn)) (sn_brand_spent_today sn) p) \<and>
   (authorize sn p inst = DENIED_BRAND_MONTHLY_CAP \<longleftrightarrow>
      c_active (sn_campaign sn) \<and>
      is_within_window (sn_campaign sn) (sn_schedule sn) inst \<and>
      \<not> cap_exceeded (b_daily_budget (sn_brand sn)) (sn_brand_spent_today sn) p \<and>
      cap_exceeded (b_monthly_budget (sn_brand sn)) (sn_brand_spent_this_month sn) p) \<and>
   (authorize sn p inst = DENIED_CAMPAIGN_DAILY_CAP \<longleftrightarrow>
      c_active (sn_campaign sn) \<and>
      is_within_window (sn_campaign sn) (sn_schedule sn) inst \<and>
      \<not> cap_exceeded (b_daily_budget (sn_brand sn)) (sn_brand_spent_today sn) p \<and>
      \<not> cap_exceeded (b_monthly_budget (sn_brand sn)) (sn_brand_spent_this_month sn) p \<and>
      cap_exceeded (c_daily_budget (sn_campaign sn)) (sn_campaign_spent_today sn) p) \<and>
   (authorize sn p inst = DENIED_CAMPAIGN_MONTHLY_CAP \<longleftrightarrow>
      c_active (sn_campaign sn) \<and>
      is_within_window (sn_campaign sn) (sn_schedule sn) inst \<and>
      \<not> cap_exceeded (b_daily_budget (sn_brand sn)) (sn_brand_spent_today sn) p \<and>
      \<not> cap_exceeded (b_monthly_budget (sn_brand sn)) (sn_brand_spent_this_month sn) p \<and>
      \<not> cap_exceeded (c_daily_budget (sn_campaign sn)) (sn_campaign_spent_today sn) p \<and>
      cap_exceeded (c_monthly_budget (sn_campaign sn)) (sn_campaign_spent_this_month sn) p) \<and>
   (authorize sn p inst = ALLOWED \<longleftrightarrow>
      c_active (sn_campaign sn) \<and>
      is_within_window (sn_campaign sn) (sn_schedule sn) inst \<and>
      \<not> cap_exceeded (b_daily_budget (sn_brand sn)) (sn_brand_spent_today sn) p \<and>
      \<not> cap_exceeded (b_monthly_budget (sn_brand sn)) (sn_brand_spent_this_month sn) p \<and>
      \<not> cap_exceeded (c_daily_budget (sn_campaign sn)) (sn_campaign_spent_today sn) p \<and>
      \<not> cap_exceeded (c_monthly_budget (sn_campaign sn)) (sn_campaign_spent_this_month sn) p) \<and>
   (cap_exceeded cap spent p \<longleftrightarrow> cap \<noteq> 0 \<and> cap < spent + p) \<and>
   (c_active (sn_campaign sn) \<and>
    is_within_window (sn_campaign sn) (sn_schedule sn) inst \<and>
    b_daily_budget (sn_brand sn) = 100000 \<and>
    \<not> cap_exceeded (b_daily_budget (sn_brand sn)) (sn_brand_spent_today sn) 1000 \<and>
    \<not> cap_exceeded (b_monthly_budget (sn_brand sn)) (sn_brand_spent_this_month sn) 1000 \<and>
    c_daily_budget (sn_campaign sn) = 2000 \<and> sn_campaign_spent_today sn = 1500
      \<longrightarrow> authorize sn 1000 inst = DENIED_CAMPAIGN_DAILY_CAP)"
  by (simp add: authorize_def cap_exceeded_def)

lemma sn1_fields:
  "sn_brand sn1 = brand1" "sn_campaign sn1 = camp1" "sn_schedule sn1 = Some sched1"
  "sn_brand_spent_today sn1 = 2200" "sn_brand_spent_this_month sn1 = 2500"
  "sn_campaign_spent_today sn1 = 1500" "sn_campaign_spent_this_month sn1 = 1800"
  by (simp_all add: sn1_def take_snapshot_def) code_simp+

lemma camp1_window_noon15: "is_within_window camp1 (Some sched1) noon15"
  by code_simp

theorem authorize_first_failing_check_witness:
  "c_active (sn_campaign sn1) \<and>
   is_within_window (sn_campaign sn1) (sn_schedule sn1) noon15 \<and>
   b_daily_budget (sn_brand sn1) = 100000 \<and>
   \<not> cap_exceeded (b_daily_budget (sn_brand sn1)) (sn_brand_spent_today sn1) 1000 \<and>
   \<not> cap_exceeded (b_monthly_budget (sn_brand sn1)) (sn_brand_spent_this_month sn1) 1000 \<and>
   c_daily_budget (sn_campaign sn1) = 2000 \<and> sn_campaign_spent_today sn1 = 1500 \<and>
   authorize sn1 1000 noon15 = DENIED_CAMPAIGN_DAILY_CAP \<and>
   authorize sn1 500 noon15 = ALLOWED \<and>
   authorize sn1 500 (noon15\<lparr>i_hour := 17\<rparr>) = DENIED_OUT_OF_WINDOW \<and>
   authorize sn1 98000 noon15 = DENIED_BRAND_DAILY_CAP"
proof -
  have a: "c_active camp1" "c_daily_budget camp1 = 2000" "c_monthly_budget camp1 = 0"
    by (simp_all add: camp1_def)
  have b: "b_daily_budget brand1 = 100000" "b_monthly_budget brand1 = 0"
    by (simp_all add: brand1_def)
  have w: "\<not> is_within_window camp1 (Some sched1) (noon15\<lparr>i_hour := 17\<rparr>)"
    by code_simp
  from authorize_first_failing_check [of sn1 1000 noon15]
    authorize_first_failing_check [of sn1 500 noon15]
    authorize_first_failing_check [of sn1 500 "noon15\<lparr>i_hour := 17\<rparr>"]
    authorize_first_failing_check [of sn1 98000 noon15]
  show ?thesis
    by (simp add: sn1_fields camp1_window_noon15 a b w cap_exceeded_def)
qed

text \<open>
  C8. Whenever one of the four budget fields of a snapshot is zero, \<open>authorize\<close> does
  not return the cap-denial code of that scope, for any spends and any proposed amount.
\<close>

theorem zero_cap_never_denies:
  "(b_daily_budget (sn_brand sn) = 0 \<longrightarrow> authorize sn p inst \<noteq> DENIED_BRAND_DAILY_CAP) \<and>
   (b_monthly_budget (sn_brand sn) = 0 \<longrightarrow> authorize sn p inst \<noteq> DENIED_BRAND_MONTHLY_CAP) \<and>
   (c_daily_budget (sn_campaign sn) = 0 \<longrightarrow> authorize sn p inst \<noteq> DENIED_CAMPAIGN_DAILY_CAP) \<and>
   (c_monthly_budget (sn_campaign sn) = 0 \<longrightarrow>
      authorize sn p inst \<noteq> DENIED_CAMPAIGN_MONTHLY_CAP)"
  by (simp add: authorize_def cap_exceeded_def)

theorem zero_cap_never_denies_witness:
  "b_daily_budget (sn_brand sn3) = 0 \<and> b_monthly_budget (sn_brand sn3) = 0 \<and>
   c_daily_budget (sn_campaign sn3) = 0 \<and> c_monthly_budget (sn_campaign sn3) = 0 \<and>
   authorize sn3 5000 noon15 \<noteq> DENIED_BRAND_DAILY_CAP \<and>
   authorize sn3 5000 noon15 \<noteq> DENIED_BRAND_MONTHLY_CAP \<and>
   authorize sn3 5000 noon15 \<noteq> DENIED_CAMPAIGN_DAILY_CAP \<and>
   authorize sn3 5000 noon15 \<noteq> DENIED_CAMPAIGN_MONTHLY_CAP"
proof -
  have z: "b_daily_budget (sn_brand sn3) = 0" "b_monthly_budget (sn_brand sn3) = 0"
    "c_daily_budget (sn_campaign sn3) = 0" "c_monthly_budget (sn_campaign sn3) = 0"
    by (simp_all add: sn3_def brand1_def camp1_def)
  from zero_cap_never_denies [of sn3 5000 noon15] z show ?thesis by simp
qed

section \<open>The budget ledger\<close>

text \<open>
  C9. For all non-negative \<open>spent\<close> and all \<open>cap > 0\<close>, \<open>capped_remaining cap spent\<close> is
  \<open>max 0 (cap - spent)\<close> and is never negative, while \<open>raw_remaining cap spent\<close> is
  \<open>cap - spent\<close>, which is negative exactly when the spend is above the cap.
\<close>

theorem capped_remaining_floor:
  "0 \<le> spent \<Longrightarrow> 0 < cap \<Longrightarrow>
     capped_remaining cap spent = max 0 (cap - spent) \<and>
     0 \<le> capped_remaining cap spent \<and>
     raw_remaining cap spent = cap - spent \<and>
     (raw_remaining cap spent < 0 \<longleftrightarrow> cap < spent) \<and>
     remaining cap spent = Headroom (cap - spent) (max 0 (cap - spent))"
  by (simp add: capped_remaining_def raw_remaining_def remaining_def max_def)

theorem capped_remaining_floor_witness:
  "(0::int) \<le> 2500 \<and> (0::int) < 2000 \<and>
   capped_remaining 2000 2500 = 0 \<and> raw_remaining 2000 2500 = - 500 \<and>
   remaining 2000 2500 = Headroom (- 500) 0"
proof -
  have a: "(0::int) \<le> 2500" and b: "(0::int) < 2000" by simp_all
  from capped_remaining_floor [OF a b] show ?thesis by simp
qed

section \<open>Expense amounts\<close>

text \<open>
  C10, as the source has it. An expense is accepted exactly when its amount, a decimal
  of two fractional digits, has at most twelve digits, that is when it lies strictly
  between -10000000000.00 and 10000000000.00. The sign is not restricted: the expense
  with the opposite amount and the one with amount zero are accepted as well.
\<close>

theorem expense_amount_range:
  "(Expense_accepted e \<longleftrightarrow> - (10 ^ 12) < e_amount e \<and> e_amount e < 10 ^ 12) \<and>
   (Expense_accepted (e\<lparr>e_amount := - e_amount e\<rparr>) \<longleftrightarrow> Expense_accepted e) \<and>
   Expense_accepted (e\<lparr>e_amount := 0\<rparr>)"
  by (auto simp: Expense_accepted_def amount_field_accepts_def)

theorem expense_amount_range_witness:
  "Expense_accepted refund1 \<and> e_amount refund1 = - 500 \<and>
   Expense_accepted (refund1\<lparr>e_amount := 500\<rparr>) \<and>
   Expense_accepted (refund1\<lparr>e_amount := 0\<rparr>) \<and>
   \<not> Expense_accepted (refund1\<lparr>e_amount := 1000000000000\<rparr>)"
  using expense_amount_range [of refund1]
    expense_amount_range [of "refund1\<lparr>e_amount := 1000000000000\<rparr>"]
  by (simp add: refund1_def)

text \<open>
  C10, as stated, fails: the expense \<open>refund1\<close> of amount -5.00 is accepted and its
  amount is not positive.
\<close>

theorem expense_amount_positive_counterexample:
  "Expense_accepted refund1 \<and> \<not> 0 < e_amount refund1"
  by (simp add: Expense_accepted_def amount_field_accepts_def refund1_def)

end
